theory Spec2Isabelle
  imports Main "HOL-Library.Word" "HOL-Library.Sublist"
begin

section \<open>JavaScript strings\<close>

text \<open>
  A JavaScript string is a sequence of UTF-16 code units, and \<^verbatim>\<open>length\<close> counts code
  units. String literals of the source are ASCII and are written through \<open>lit\<close>.
\<close>

type_synonym jschar = "16 word"
type_synonym jsstring = "jschar list"

definition lit :: "string \<Rightarrow> jsstring" where
  "lit s = map of_char s"

text \<open>
  ECMAScript's LineTerminator and WhiteSpace code units. \<^verbatim>\<open>String.prototype.trim\<close>
  strips both classes at both ends; the regular expression class \<^verbatim>\<open>\s\<close> is their union,
  and \<^verbatim>\<open>.\<close> is every code unit but a line terminator.
\<close>

definition isLineTerminator :: "jschar \<Rightarrow> bool" where
  "isLineTerminator c \<longleftrightarrow> c = 0x0A \<or> c = 0x0D \<or> c = 0x2028 \<or> c = 0x2029"

definition isWhiteSpace :: "jschar \<Rightarrow> bool" where
  "isWhiteSpace c \<longleftrightarrow>
     c = 0x09 \<or> c = 0x0B \<or> c = 0x0C \<or> c = 0x20 \<or> c = 0xA0 \<or> c = 0x1680 \<or>
     (0x2000 \<le> c \<and> c \<le> 0x200A) \<or> c = 0x202F \<or> c = 0x205F \<or> c = 0x3000 \<or>
     c = 0xFEFF \<or> isLineTerminator c"

definition isDot :: "jschar \<Rightarrow> bool" where
  "isDot c \<longleftrightarrow> \<not> isLineTerminator c"

definition trim :: "jsstring \<Rightarrow> jsstring" where
  "trim s = rev (dropWhile isWhiteSpace (rev (dropWhile isWhiteSpace s)))"

text \<open>Truthiness of an optional string: \<^verbatim>\<open>undefined\<close> and \<^verbatim>\<open>''\<close> are falsy.\<close>

fun truthy :: "jsstring option \<Rightarrow> bool" where
  "truthy None = False"
| "truthy (Some s) = (s \<noteq> [])"

section \<open>Regular expressions as backtracking matchers\<close>

text \<open>
  A position in the subject is the code unit before it (\<open>None\<close> at the start of the
  input) and the input that remains. A matcher returns the positions at which it can end,
  in the order in which a backtracking engine tries them: the head of the list is the
  match the engine reports, the empty list is failure.
\<close>

type_synonym position = "jschar option \<times> jsstring"
type_synonym matcher = "position \<Rightarrow> position list"

text \<open>One code unit of a class.\<close>

fun atom :: "(jschar \<Rightarrow> bool) \<Rightarrow> matcher" where
  "atom P (prev, []) = []"
| "atom P (prev, c # cs) = (if P c then [(Some c, cs)] else [])"

text \<open>Greedy \<^verbatim>\<open>*\<close> over a class: the longest run first, then each shorter one.\<close>

fun star :: "(jschar \<Rightarrow> bool) \<Rightarrow> matcher" where
  "star P (prev, []) = [(prev, [])]"
| "star P (prev, c # cs) =
     (if P c then star P (Some c, cs) @ [(prev, c # cs)] else [(prev, c # cs)])"

text \<open>Concatenation: every end of the first matcher is continued by the second.\<close>

definition seq :: "matcher \<Rightarrow> matcher \<Rightarrow> matcher" where
  "seq m1 m2 p = concat (map m2 (m1 p))"

text \<open>Greedy \<^verbatim>\<open>+\<close> over a class.\<close>

definition plus :: "(jschar \<Rightarrow> bool) \<Rightarrow> matcher" where
  "plus P = seq (atom P) (star P)"

text \<open>The assertions \<^verbatim>\<open>^\<close> and \<^verbatim>\<open>$\<close> under the \<^verbatim>\<open>m\<close> flag.\<close>

fun startOfLine :: matcher where
  "startOfLine (None, s) = [(None, s)]"
| "startOfLine (Some b, s) = (if isLineTerminator b then [(Some b, s)] else [])"

fun endOfLine :: matcher where
  "endOfLine (prev, []) = [(prev, [])]"
| "endOfLine (prev, c # cs) = (if isLineTerminator c then [(prev, c # cs)] else [])"

section \<open>convertOpalMarkdownToJira\<close>

text \<open>
  The action-item expression \<^verbatim>\<open>/^\s*[-*]\s*\[([ x])\]\s*(.+)$/gm\<close>, in two parts: everything
  before the second group, and the second group with the closing assertion. The first
  group (the check mark) is not used by the callback.
\<close>

definition actionItemHead :: matcher where
  "actionItemHead =
     seq startOfLine
    (seq (star isWhiteSpace)
    (seq (atom (\<lambda>c. c = of_char CHR ''-'' \<or> c = of_char CHR ''*''))
    (seq (star isWhiteSpace)
    (seq (atom (\<lambda>c. c = of_char CHR ''[''))
    (seq (atom (\<lambda>c. c = of_char CHR '' '' \<or> c = of_char CHR ''x''))
    (seq (atom (\<lambda>c. c = of_char CHR '']''))
         (star isWhiteSpace)))))))"

definition actionItemTail :: matcher where
  "actionItemTail = seq (plus isDot) endOfLine"

text \<open>
  The matches at a position, in backtracking order: the text of the second group (what
  the group consumed) and the position after the match.
\<close>

definition actionItemMatch :: "position \<Rightarrow> (jsstring \<times> position) list" where
  "actionItemMatch p =
     concat (map (\<lambda>t. map (\<lambda>e. (take (length (snd t) - length (snd e)) (snd t), e))
                          (actionItemTail t))
                 (actionItemHead p))"

text \<open>Matchers only move forward: the input that remains never grows.\<close>

definition forward :: "matcher \<Rightarrow> bool" where
  "forward m \<longleftrightarrow> (\<forall>p q. q \<in> set (m p) \<longrightarrow> length (snd q) \<le> length (snd p))"

definition consuming :: "matcher \<Rightarrow> bool" where
  "consuming m \<longleftrightarrow> (\<forall>p q. q \<in> set (m p) \<longrightarrow> length (snd q) < length (snd p))"

lemma star_length: "q \<in> set (star P p) \<Longrightarrow> length (snd q) \<le> length (snd p)"
proof (induction P p arbitrary: q rule: star.induct)
  case (1 P prev)
  then show ?case by simp
next
  case (2 P prev c cs)
  then show ?case by (fastforce split: if_splits)
qed

lemma forward_star: "forward (star P)"
  unfolding forward_def using star_length by blast

lemma consuming_atom: "consuming (atom P)"
  unfolding consuming_def
proof (intro allI impI)
  fix p q assume "q \<in> set (atom P p)"
  then show "length (snd q) < length (snd p)"
    by (cases "(P, p)" rule: atom.cases) (auto split: if_splits)
qed

lemma forward_startOfLine: "forward startOfLine"
  unfolding forward_def
proof (intro allI impI)
  fix p q assume "q \<in> set (startOfLine p)"
  then show "length (snd q) \<le> length (snd p)"
    by (cases p rule: startOfLine.cases) (auto split: if_splits)
qed

lemma forward_endOfLine: "forward endOfLine"
  unfolding forward_def
proof (intro allI impI)
  fix p q assume "q \<in> set (endOfLine p)"
  then show "length (snd q) \<le> length (snd p)"
    by (cases p rule: endOfLine.cases) (auto split: if_splits)
qed

lemma consuming_forward: "consuming m \<Longrightarrow> forward m"
  unfolding consuming_def forward_def by (meson less_imp_le)

lemma forward_seq: "forward m1 \<Longrightarrow> forward m2 \<Longrightarrow> forward (seq m1 m2)"
  unfolding forward_def seq_def by (fastforce intro: le_trans)

lemma consuming_seq1: "consuming m1 \<Longrightarrow> forward m2 \<Longrightarrow> consuming (seq m1 m2)"
  unfolding forward_def consuming_def seq_def by (fastforce intro: le_less_trans)

lemma consuming_seq2: "forward m1 \<Longrightarrow> consuming m2 \<Longrightarrow> consuming (seq m1 m2)"
  unfolding forward_def consuming_def seq_def by (fastforce intro: less_le_trans)

lemma consuming_actionItemHead: "consuming actionItemHead"
  unfolding actionItemHead_def
  by (intro consuming_seq2 [OF forward_startOfLine] consuming_seq2 [OF forward_star]
      consuming_seq1 [OF consuming_atom] forward_seq forward_star consuming_forward
      consuming_atom)

lemma consuming_actionItemTail: "consuming actionItemTail"
  unfolding actionItemTail_def plus_def
  by (intro consuming_seq1 forward_seq consuming_atom forward_star forward_endOfLine)

lemma actionItemMatch_length:
  assumes "(text, q) \<in> set (actionItemMatch p)"
  shows "length (snd q) < length (snd p)"
proof -
  from assms obtain t where t: "t \<in> set (actionItemHead p)" "q \<in> set (actionItemTail t)"
    by (auto simp: actionItemMatch_def)
  from t(1) consuming_actionItemHead have "length (snd t) < length (snd p)"
    unfolding consuming_def by blast
  moreover from t(2) consuming_actionItemTail have "length (snd q) < length (snd t)"
    unfolding consuming_def by blast
  ultimately show ?thesis by simp
qed

text \<open>
  \<^verbatim>\<open>replace\<close> with the global flag: the expression is tried at every position from left
  to right; where it matches, the callback's result \<^verbatim>\<open>`[] ${text}`\<close> replaces the match and
  the scan goes on after it; where it does not, the code unit is copied. The expression
  needs at least five code units, so it cannot match at the end of the input.
\<close>

function replaceActionItems :: "position \<Rightarrow> jsstring" where
  "replaceActionItems (prev, []) = []"
| "replaceActionItems (prev, c # cs) =
     (case actionItemMatch (prev, c # cs) of
        [] \<Rightarrow> c # replaceActionItems (Some c, cs)
      | (text, after) # _ \<Rightarrow> lit ''[] '' @ text @ replaceActionItems after)"
  by pat_completeness auto
termination
proof (relation "measure (\<lambda>p. length (snd p))", goal_cases)
  case 1
  show ?case by simp
next
  case (2 prev c cs)
  show ?case by simp
next
  case (3 prev c cs a list body after)
  then have "(body, after) \<in> set (actionItemMatch (prev, c # cs))" by simp
  from actionItemMatch_length [OF this] show ?case by simp
qed

text \<open>
  The emoji expression is an alternation of literal glyphs, tried in the order written;
  \<open>emojiMap\<close> is the callback's table. The glyphs are the code units of the source file
  as it stands.
\<close>

definition emojiMap :: "(jsstring \<times> jsstring) list" where
  "emojiMap =
    [([0xF8FF, 0x00FC, 0x00F2, 0x00C4], lit '':smiley:''),
     ([0xF8FF, 0x00FC, 0x00F2, 0x00E4], lit '':blush:''),
     ([0xF8FF, 0x00FC, 0x00F2, 0x00E9], lit '':sunglasses:''),
     ([0xF8FF, 0x00FC, 0x00EB, 0x00E7], lit '':thumbsup:''),
     ([0xF8FF, 0x00FC, 0x00EB, 0x00E9], lit '':thumbsdown:''),
     ([0x201A, 0x00F9, 0x00A7, 0x00D4, 0x220F, 0x00E8], lit '':heart:''),
     ([0xF8FF, 0x00FC, 0x00E9, 0x00E2], lit '':tada:''),
     ([0xF8FF, 0x00FC, 0x00F6, 0x00C4], lit '':rocket:''),
     ([0x201A, 0x00F6, 0x2020, 0x00D4, 0x220F, 0x00E8], lit '':warning:''),
     ([0x201A, 0x00F9, 0x00E5], lit '':x:''),
     ([0x201A, 0x00FA, 0x00D6], lit '':white_check_mark:''),
     ([0xF8FF, 0x00FC, 0x00EC, 0x00F9], lit '':memo:''),
     ([0xF8FF, 0x00FC, 0x00ED, 0x00B0], lit '':bulb:''),
     ([0xF8FF, 0x00FC, 0x00EE, 0x00DF], lit '':wrench:''),
     ([0x201A, 0x2260, 0x00EA], lit '':star:'')]"

definition emojiAlternatives :: "jsstring list" where
  "emojiAlternatives = map fst emojiMap"

text \<open>The callback \<^verbatim>\<open>emojiMap[emoji] || emoji\<close>.\<close>

definition emojiCallback :: "jsstring \<Rightarrow> jsstring" where
  "emojiCallback emoji =
     (if truthy (map_of emojiMap emoji) then the (map_of emojiMap emoji) else emoji)"

fun matchAlternatives :: "jsstring list \<Rightarrow> jsstring \<Rightarrow> jsstring option" where
  "matchAlternatives [] s = None"
| "matchAlternatives (p # ps) s = (if prefix p s then Some p else matchAlternatives ps s)"

lemma matchAlternatives_Some:
  "matchAlternatives ps s = Some m \<Longrightarrow> m \<in> set ps \<and> prefix m s"
  by (induction ps) (auto split: if_splits)

lemma emojiAlternatives_nonempty: "[] \<notin> set emojiAlternatives"
  by (simp add: emojiAlternatives_def emojiMap_def)

function replaceEmoji :: "jsstring \<Rightarrow> jsstring" where
  "replaceEmoji [] = []"
| "replaceEmoji (c # cs) =
     (case matchAlternatives emojiAlternatives (c # cs) of
        None \<Rightarrow> c # replaceEmoji cs
      | Some emoji \<Rightarrow> emojiCallback emoji @ replaceEmoji (drop (length emoji) (c # cs)))"
  by pat_completeness auto
termination
proof (relation "measure length", goal_cases)
  case 1
  show ?case by simp
next
  case (2 c cs)
  show ?case by simp
next
  case (3 c cs emoji)
  then have "emoji \<in> set emojiAlternatives"
    by (simp add: matchAlternatives_Some)
  with emojiAlternatives_nonempty have "emoji \<noteq> []" by blast
  then show ?case by (cases emoji) simp_all
qed

text \<open>The last step, \<^verbatim>\<open>replace(/\n\n/g, '\n\n')\<close>.\<close>

fun replaceDoubleNewline :: "jsstring \<Rightarrow> jsstring" where
  "replaceDoubleNewline (a # b # cs) =
     (if a = 0x0A \<and> b = 0x0A then [0x0A, 0x0A] @ replaceDoubleNewline cs
      else a # replaceDoubleNewline (b # cs))"
| "replaceDoubleNewline s = s"

definition convertOpalMarkdownToJira :: "jsstring \<Rightarrow> jsstring" where
  "convertOpalMarkdownToJira opalMarkdown =
     replaceDoubleNewline (replaceEmoji (replaceActionItems (None, opalMarkdown)))"

text \<open>The function of the claim C8: the same steps without the last replacement.\<close>

definition convertOpalMarkdownToJira_without_newline_step :: "jsstring \<Rightarrow> jsstring" where
  "convertOpalMarkdownToJira_without_newline_step opalMarkdown =
     replaceEmoji (replaceActionItems (None, opalMarkdown))"

section \<open>The JIRA client (jira-client.ts)\<close>

text \<open>
  What a \<^verbatim>\<open>catch\<close> can receive: a \<^verbatim>\<open>JiraClientError\<close> with its message and status, another
  \<^verbatim>\<open>Error\<close> with its message, or a value that is no \<^verbatim>\<open>Error\<close> (given by its string
  conversion).
\<close>

datatype thrown = JiraClientError jsstring int | Error jsstring | Thrown jsstring

text \<open>String conversion of a thrown value, as a template literal performs it.\<close>

fun toString :: "thrown \<Rightarrow> jsstring" where
  "toString (JiraClientError m status) =
     (if m = [] then lit ''JiraClientError'' else lit ''JiraClientError: '' @ m)"
| "toString (Error m) = (if m = [] then lit ''Error'' else lit ''Error: '' @ m)"
| "toString (Thrown s) = s"

text \<open>
  The failures of the HTTP library: with a response (its status, its body, the library's
  message), with a request that got no response, or with neither.
\<close>

record error_data =
  data_message :: "jsstring option"
  data_errorMessages :: "jsstring list option"

datatype axios_error =
    ResponseError int "error_data option" jsstring
  | RequestError jsstring
  | SetupError jsstring

datatype 'a response = Resolved 'a | Rejected axios_error

text \<open>The operator \<^verbatim>\<open>||\<close> on optional strings.\<close>

definition orElse :: "jsstring option \<Rightarrow> jsstring option \<Rightarrow> jsstring option" where
  "orElse a b = (if truthy a then a else b)"

text \<open>\<^verbatim>\<open>errorData?.message || errorData?.errorMessages?.[0] || error.message\<close>\<close>

definition errorMessage :: "error_data option \<Rightarrow> jsstring \<Rightarrow> jsstring" where
  "errorMessage errorData msg =
     (case orElse (Option.bind errorData data_message)
            (orElse (Option.bind errorData (\<lambda>d. Option.bind (data_errorMessages d)
                       (\<lambda>ms. case ms of [] \<Rightarrow> None | m # _ \<Rightarrow> Some m)))
                    (Some msg)) of
        None \<Rightarrow> []
      | Some m \<Rightarrow> m)"

text \<open>The response interceptor of the constructor: every failure becomes a \<^verbatim>\<open>JiraClientError\<close>.\<close>

fun interceptor :: "axios_error \<Rightarrow> thrown" where
  "interceptor (ResponseError status errorData msg) =
     JiraClientError (errorMessage errorData msg) status"
| "interceptor (RequestError msg) =
     JiraClientError (lit ''Network error: Unable to reach JIRA server'') 0"
| "interceptor (SetupError msg) = JiraClientError msg 0"

text \<open>
  The handler shared by the client's methods: a \<^verbatim>\<open>JiraClientError\<close> is thrown again,
  anything else is wrapped with status 0.
\<close>

fun rethrow :: "jsstring \<Rightarrow> thrown \<Rightarrow> thrown" where
  "rethrow what (JiraClientError m status) = JiraClientError m status"
| "rethrow what e = JiraClientError (what @ toString e) 0"

record jira_user =
  accountId :: jsstring
  displayName :: jsstring

record CreateIssueResponse =
  resp_id :: jsstring
  resp_key :: jsstring
  resp_self :: jsstring

text \<open>The description in Atlassian Document Format, and the \<^verbatim>\<open>fields\<close> of a request.\<close>

record adf_text =
  run_text :: jsstring
  run_type :: jsstring

record adf_node =
  node_type :: jsstring
  node_content :: "adf_text list"

record adf_doc =
  doc_type :: jsstring
  doc_version :: nat
  doc_content :: "adf_node list"

record CreateIssueRequest =
  fields_project_key :: jsstring
  fields_summary :: jsstring
  fields_description :: "adf_doc option"
  fields_issuetype_name :: jsstring
  fields_assignee_accountId :: "jsstring option"

text \<open>
  The JIRA server as the client sees it: the outcome of the user search for an email and
  of posting an issue. Every function below returns its result together with the
  outbound calls and log lines it made, in order.
\<close>

record provider =
  userSearch :: "jsstring \<Rightarrow> jira_user list response"
  postIssue :: "CreateIssueRequest \<Rightarrow> CreateIssueResponse response"

datatype event = GetUserSearch jsstring | PostIssue CreateIssueRequest | ConsoleWarn jsstring

definition createIssue ::
  "provider \<Rightarrow> CreateIssueRequest \<Rightarrow> (thrown + CreateIssueResponse) \<times> event list" where
  "createIssue jira issueData =
     (case postIssue jira issueData of
        Resolved r \<Rightarrow> Inr r
      | Rejected e \<Rightarrow> Inl (rethrow (lit ''Failed to create issue: '') (interceptor e)),
      [PostIssue issueData])"

definition getUserByEmail ::
  "provider \<Rightarrow> jsstring \<Rightarrow> (thrown + jira_user) \<times> event list" where
  "getUserByEmail jira email =
     (case userSearch jira email of
        Resolved users \<Rightarrow>
          (case users of
             [] \<Rightarrow> Inl (rethrow (lit ''Failed to find user '' @ email @ lit '': '')
                      (JiraClientError (lit ''User with email '' @ email @ lit '' not found'') 404))
           | u # _ \<Rightarrow> Inr \<lparr>accountId = accountId u, displayName = displayName u\<rparr>)
      | Rejected e \<Rightarrow>
          Inl (rethrow (lit ''Failed to find user '' @ email @ lit '': '') (interceptor e)),
      [GetUserSearch email])"

definition createDescriptionADF :: "jsstring \<Rightarrow> adf_doc" where
  "createDescriptionADF text =
     \<lparr>doc_type = lit ''doc'', doc_version = 1,
      doc_content =
        [\<lparr>node_type = lit ''paragraph'',
          node_content = [\<lparr>run_text = text, run_type = lit ''text''\<rparr>]\<rparr>]\<rparr>"

text \<open>The description is added when it is truthy.\<close>

fun addDescription :: "jsstring option \<Rightarrow> CreateIssueRequest \<Rightarrow> CreateIssueRequest" where
  "addDescription None issueData = issueData"
| "addDescription (Some d) issueData =
     (if d \<noteq> [] then issueData\<lparr>fields_description := Some (createDescriptionADF d)\<rparr>
      else issueData)"

text \<open>
  The assignee is added when an email is given and the lookup succeeds; a failed lookup
  is logged and the request stays as it is.
\<close>

fun addAssignee ::
  "provider \<Rightarrow> jsstring option \<Rightarrow> CreateIssueRequest \<Rightarrow> CreateIssueRequest \<times> event list" where
  "addAssignee jira None issueData = (issueData, [])"
| "addAssignee jira (Some assigneeEmail) issueData =
     (if assigneeEmail \<noteq> [] then
        (case getUserByEmail jira assigneeEmail of
           (Inr user, events) \<Rightarrow>
             (issueData\<lparr>fields_assignee_accountId := Some (accountId user)\<rparr>, events)
         | (Inl error, events) \<Rightarrow>
             (issueData,
              events @ [ConsoleWarn (lit ''Warning: Could not find user '' @ assigneeEmail @
                          lit '', creating ticket without assignee'')]))
      else (issueData, []))"

definition createIssueWithText ::
  "provider \<Rightarrow> jsstring \<Rightarrow> jsstring \<Rightarrow> jsstring \<Rightarrow> jsstring option \<Rightarrow> jsstring option \<Rightarrow>
     (thrown + CreateIssueResponse) \<times> event list" where
  "createIssueWithText jira projectKey issueType summary description assigneeEmail =
     (let issueData = \<lparr>fields_project_key = projectKey, fields_summary = summary,
                        fields_description = None, fields_issuetype_name = issueType,
                        fields_assignee_accountId = None\<rparr>;
          issueData = addDescription description issueData;
          (issueData, lookup) = addAssignee jira assigneeEmail issueData;
          (result, post) = createIssue jira issueData
      in (result, lookup @ post))"

section \<open>The tool (jira-tools.ts)\<close>

record CreateJiraTicketParams =
  summary :: "jsstring option"
  description :: "jsstring option"

record ToolResult =
  success :: bool
  message :: jsstring

record CreateJiraTicketResult = ToolResult +
  ticketKey :: jsstring
  ticketUrl :: jsstring
  ticketId :: jsstring

record ConnectionResult = ToolResult +
  projectAccessible :: bool
  assigneeFound :: bool

record process_env =
  JIRA_BASE_URL :: "jsstring option"

text \<open>\<^verbatim>\<open>process.env.JIRA_BASE_URL || ''\<close>\<close>

definition baseUrl :: "process_env \<Rightarrow> jsstring" where
  "baseUrl env = (case JIRA_BASE_URL env of None \<Rightarrow> [] | Some b \<Rightarrow> b)"

text \<open>
  The input validation, the same in both deployments: the first rule that fails gives the
  message of the \<^verbatim>\<open>Error\<close> thrown; \<open>None\<close> when the request passes.
\<close>

definition validate :: "CreateJiraTicketParams \<Rightarrow> jsstring option" where
  "validate params =
     (if \<not> truthy (summary params) \<or> length (trim (the (summary params))) = 0
      then Some (lit ''Summary is required and cannot be empty'')
      else if length (the (summary params)) > 255
      then Some (lit ''Summary must be 255 characters or less'')
      else if truthy (description params) \<and> length (the (description params)) > 32767
      then Some (lit ''Description must be 32,767 characters or less'')
      else None)"

subsection \<open>The DEX deployment (api/jira-tools.ts)\<close>

definition DEX_PROJECT_KEY :: jsstring where
  "DEX_PROJECT_KEY = lit ''DHK''"

definition DEFAULT_ISSUE_TYPE_DEX :: jsstring where
  "DEFAULT_ISSUE_TYPE_DEX = lit ''Story''"

definition ALEX_WALD_EMAIL :: jsstring where
  "ALEX_WALD_EMAIL = lit ''alex.wald@optimizely.com''"

text \<open>The \<^verbatim>\<open>catch\<close> block of \<^verbatim>\<open>createJiraTicket\<close>: the message of the \<^verbatim>\<open>Error\<close> it throws.\<close>

fun classifyError_DEX :: "thrown \<Rightarrow> jsstring" where
  "classifyError_DEX (JiraClientError m status) =
     (if status = 400 then
        lit ''Failed to create JIRA ticket: Invalid request data. This could mean: 1) The DEX project (''
        @ DEX_PROJECT_KEY
        @ lit '') configuration has changed, 2) The Story issue type is not available, 3) Required custom fields are missing, or 4) Field values are invalid. Please contact your JIRA administrator to verify project configuration. Technical details: ''
        @ m
      else if status = 401 then
        lit ''Authentication failed when creating JIRA ticket. The API token may be expired or invalid. Please check the JIRA_API_TOKEN environment variable and ensure it has create permissions for the DEX project. Technical details: ''
        @ m
      else if status = 403 then
        lit ''Access denied when creating ticket in DEX project (''
        @ DEX_PROJECT_KEY
        @ lit ''). Your account may not have permission to create Story issues in this project or assign tickets to Alex Wald. Please contact your JIRA administrator to verify permissions. Technical details: ''
        @ m
      else if status = 404 then
        lit ''DEX project (''
        @ DEX_PROJECT_KEY
        @ lit '') or Story issue type not found. The project may have been moved, renamed, or you may not have access to it. Please verify the project exists and you have appropriate permissions. Technical details: ''
        @ m
      else if status = 429 then
        lit ''Rate limit exceeded when creating JIRA ticket. Too many requests have been made to the JIRA API. Please wait a moment and try again. Technical details: ''
        @ m
      else lit ''Failed to create JIRA ticket in DEX project: '' @ m)"
| "classifyError_DEX (Error m) = lit ''Unexpected error creating JIRA ticket: '' @ m"
| "classifyError_DEX (Thrown v) = lit ''Unexpected error creating JIRA ticket: Unknown error''"

definition createJiraTicket_DEX ::
  "process_env \<Rightarrow> provider \<Rightarrow> CreateJiraTicketParams \<Rightarrow>
     (thrown + CreateJiraTicketResult) \<times> event list" where
  "createJiraTicket_DEX env jira params =
     (case validate params of
        Some invalid \<Rightarrow> (Inl (Error invalid), [])
      | None \<Rightarrow>
          (case createIssueWithText jira DEX_PROJECT_KEY DEFAULT_ISSUE_TYPE_DEX
                  (trim (the (summary params))) (map_option trim (description params))
                  (Some ALEX_WALD_EMAIL) of
             (Inr result, events) \<Rightarrow>
               (let ticketUrl = baseUrl env @ lit ''/browse/'' @ resp_key result
                in (Inr \<lparr>success = True,
                          message = lit ''Successfully created JIRA ticket '' @ resp_key result
                            @ lit '' in DEX project. The ticket has been assigned to Alex Wald and can be viewed at ''
                            @ ticketUrl,
                          ticketKey = resp_key result,
                          ticketUrl = ticketUrl,
                          ticketId = resp_id result\<rparr>, events))
           | (Inl error, events) \<Rightarrow> (Inl (Error (classifyError_DEX error)), events)))"

text \<open>
  \<^verbatim>\<open>validateJiraConnection\<close>: the inner handler catches every failure of the lookup, and
  nothing else in the outer \<^verbatim>\<open>try\<close> can throw, so the outer handlers are never entered.
\<close>

definition validateJiraConnection_DEX :: "provider \<Rightarrow> ConnectionResult \<times> event list" where
  "validateJiraConnection_DEX jira =
     (let testResult = \<lparr>success = True,
                         message = lit ''JIRA connection validated successfully'',
                         projectAccessible = True, assigneeFound = True\<rparr>
      in case getUserByEmail jira ALEX_WALD_EMAIL of
           (Inr user, events) \<Rightarrow> (testResult, events)
         | (Inl error, events) \<Rightarrow>
             (testResult\<lparr>assigneeFound := False,
                message := message testResult @ lit '' (Warning: Could not find user ''
                  @ ALEX_WALD_EMAIL @ lit '')''\<rparr>, events))"

subsection \<open>The Petsmart deployment\<close>

definition PETSMART_PROJECT_KEY :: jsstring where
  "PETSMART_PROJECT_KEY = lit ''DTO''"

definition DEFAULT_ISSUE_TYPE_Petsmart :: jsstring where
  "DEFAULT_ISSUE_TYPE_Petsmart = lit ''Epic''"

definition PETSMART_ASSIGNEE_EMAIL :: jsstring where
  "PETSMART_ASSIGNEE_EMAIL = lit ''oruhland@petsmart.com''"

fun classifyError_Petsmart :: "thrown \<Rightarrow> jsstring" where
  "classifyError_Petsmart (JiraClientError m status) =
     (if status = 400 then
        lit ''Failed to create JIRA ticket: Invalid request data. This could mean: 1) The Petsmart project (''
        @ PETSMART_PROJECT_KEY
        @ lit '') configuration has changed, 2) The Epic issue type is not available, 3) Required custom fields are missing, or 4) Field values are invalid. Please contact your JIRA administrator to verify project configuration. Technical details: ''
        @ m
      else if status = 401 then
        lit ''Authentication failed when creating JIRA ticket. The API token may be expired or invalid. Please check the JIRA_API_TOKEN environment variable and ensure it has create permissions for the Petsmart project. Technical details: ''
        @ m
      else if status = 403 then
        lit ''Access denied when creating ticket in Petsmart project (''
        @ PETSMART_PROJECT_KEY
        @ lit ''). Your account may not have permission to create Epic issues in this project or assign tickets to ''
        @ PETSMART_ASSIGNEE_EMAIL
        @ lit ''. Please contact your JIRA administrator to verify permissions. Technical details: ''
        @ m
      else if status = 404 then
        lit ''Petsmart project (''
        @ PETSMART_PROJECT_KEY
        @ lit '') or Epic issue type not found. The project may have been moved, renamed, or you may not have access to it. Please verify the project exists and you have appropriate permissions. Technical details: ''
        @ m
      else if status = 429 then
        lit ''Rate limit exceeded when creating JIRA ticket. Too many requests have been made to the JIRA API. Please wait a moment and try again. Technical details: ''
        @ m
      else lit ''Failed to create JIRA ticket in DEX project: '' @ m)"
| "classifyError_Petsmart (Error m) = lit ''Unexpected error creating JIRA ticket: '' @ m"
| "classifyError_Petsmart (Thrown v) =
     lit ''Unexpected error creating JIRA ticket: Unknown error''"

text \<open>\<^verbatim>\<open>description ? convertOpalMarkdownToJira(description.trim()) : undefined\<close>\<close>

fun convertedDescription :: "jsstring option \<Rightarrow> jsstring option" where
  "convertedDescription None = None"
| "convertedDescription (Some d) =
     (if d \<noteq> [] then Some (convertOpalMarkdownToJira (trim d)) else None)"

definition createJiraTicket_Petsmart ::
  "process_env \<Rightarrow> provider \<Rightarrow> CreateJiraTicketParams \<Rightarrow>
     (thrown + CreateJiraTicketResult) \<times> event list" where
  "createJiraTicket_Petsmart env jira params =
     (case validate params of
        Some invalid \<Rightarrow> (Inl (Error invalid), [])
      | None \<Rightarrow>
          (case createIssueWithText jira PETSMART_PROJECT_KEY DEFAULT_ISSUE_TYPE_Petsmart
                  (trim (the (summary params))) (convertedDescription (description params))
                  (Some PETSMART_ASSIGNEE_EMAIL) of
             (Inr result, events) \<Rightarrow>
               (let ticketUrl = baseUrl env @ lit ''/browse/'' @ resp_key result
                in (Inr \<lparr>success = True,
                          message = lit ''Successfully created JIRA ticket '' @ resp_key result
                            @ lit '' in Petsmart DTO project. Attempted to assign to oruhland@petsmart.com. Check the ticket to verify assignment. View at ''
                            @ ticketUrl,
                          ticketKey = resp_key result,
                          ticketUrl = ticketUrl,
                          ticketId = resp_id result\<rparr>, events))
           | (Inl error, events) \<Rightarrow> (Inl (Error (classifyError_Petsmart error)), events)))"

definition validateJiraConnection_Petsmart :: "provider \<Rightarrow> ConnectionResult \<times> event list" where
  "validateJiraConnection_Petsmart jira =
     (let testResult = \<lparr>success = True,
                         message = lit ''JIRA connection validated successfully'',
                         projectAccessible = True, assigneeFound = True\<rparr>
      in case getUserByEmail jira PETSMART_ASSIGNEE_EMAIL of
           (Inr user, events) \<Rightarrow> (testResult, events)
         | (Inl error, events) \<Rightarrow>
             (testResult\<lparr>assigneeFound := False,
                message := message testResult @ lit '' (Warning: Could not find user ''
                  @ PETSMART_ASSIGNEE_EMAIL @ lit '')''\<rparr>, events))"

section \<open>Observations on a run\<close>

text \<open>The issues posted and the emails looked up during a run, in order.\<close>

fun payloads :: "event list \<Rightarrow> CreateIssueRequest list" where
  "payloads [] = []"
| "payloads (PostIssue issueData # es) = issueData # payloads es"
| "payloads (e # es) = payloads es"

fun lookups :: "event list \<Rightarrow> jsstring list" where
  "lookups [] = []"
| "lookups (GetUserSearch email # es) = email # lookups es"
| "lookups (e # es) = lookups es"

definition resolvedAccount :: "provider \<Rightarrow> jsstring \<Rightarrow> jsstring option" where
  "resolvedAccount jira email =
     (case fst (getUserByEmail jira email) of Inl error \<Rightarrow> None | Inr user \<Rightarrow> Some (accountId user))"

definition issueRequest ::
  "jsstring \<Rightarrow> jsstring \<Rightarrow> jsstring \<Rightarrow> jsstring option \<Rightarrow> jsstring option \<Rightarrow> CreateIssueRequest" where
  "issueRequest projectKey issueType s d account =
     (addDescription d \<lparr>fields_project_key = projectKey, fields_summary = s,
        fields_description = None, fields_issuetype_name = issueType,
        fields_assignee_accountId = None\<rparr>)\<lparr>fields_assignee_accountId := account\<rparr>"

text \<open>A run succeeded when it returned a result whose \<^verbatim>\<open>success\<close> is true.\<close>

definition succeeded :: "(thrown + CreateJiraTicketResult) \<Rightarrow> bool" where
  "succeeded r = (case r of Inl error \<Rightarrow> False | Inr result \<Rightarrow> success result)"


text \<open>The issue a run posts when the request passes validation (lemmas \<open>payloads_DEX\<close>, \<open>payloads_Petsmart\<close>).\<close>

definition posted_DEX :: "provider \<Rightarrow> CreateJiraTicketParams \<Rightarrow> CreateIssueRequest" where
  "posted_DEX jira params =
     issueRequest DEX_PROJECT_KEY DEFAULT_ISSUE_TYPE_DEX (trim (the (summary params)))
       (map_option trim (description params)) (resolvedAccount jira ALEX_WALD_EMAIL)"

definition posted_Petsmart :: "provider \<Rightarrow> CreateJiraTicketParams \<Rightarrow> CreateIssueRequest" where
  "posted_Petsmart jira params =
     issueRequest PETSMART_PROJECT_KEY DEFAULT_ISSUE_TYPE_Petsmart (trim (the (summary params)))
       (convertedDescription (description params))
       (resolvedAccount jira PETSMART_ASSIGNEE_EMAIL)"

text \<open>A deployment, three servers and a request, for the examples below.\<close>

definition example_env :: process_env where
  "example_env = \<lparr>JIRA_BASE_URL = Some (lit ''https://jira.example.com'')\<rparr>"

definition example_user :: jira_user where
  "example_user = \<lparr>accountId = lit ''5b10a2844c20165700ede21g'', displayName = lit ''A User''\<rparr>"

definition example_created :: CreateIssueResponse where
  "example_created =
     \<lparr>resp_id = lit ''10001'', resp_key = lit ''DHK-123'',
      resp_self = lit ''https://jira.example.com/rest/api/3/issue/10001''\<rparr>"

definition example_jira :: provider where
  "example_jira =
     \<lparr>userSearch = (\<lambda>email. Resolved [example_user]),
      postIssue = (\<lambda>issueData. Resolved example_created)\<rparr>"

definition example_jira_no_user :: provider where
  "example_jira_no_user =
     \<lparr>userSearch = (\<lambda>email. Resolved []),
      postIssue = (\<lambda>issueData. Resolved example_created)\<rparr>"



definition example_request :: CreateJiraTicketParams where
  "example_request =
     \<lparr>summary = Some (lit ''Fix login''), description = Some (lit ''Steps to reproduce'')\<rparr>"

section \<open>Properties of the markdown conversion\<close>

lemma replaceDoubleNewline_id: "replaceDoubleNewline s = s"
  by (induction s rule: replaceDoubleNewline.induct) simp_all

lemma replaceActionItems_Nil_iff: "replaceActionItems (prev, s) = [] \<longleftrightarrow> s = []"
  by (cases s) (simp_all add: lit_def split: list.splits)

lemma emojiCallback_nonempty: "emoji \<noteq> [] \<Longrightarrow> emojiCallback emoji \<noteq> []"
  by (cases "map_of emojiMap emoji") (auto simp: emojiCallback_def)

lemma replaceEmoji_Nil_iff: "replaceEmoji s = [] \<longleftrightarrow> s = []"
proof (cases s)
  case Nil
  then show ?thesis by simp
next
  case (Cons c cs)
  show ?thesis
  proof (cases "matchAlternatives emojiAlternatives (c # cs)")
    case None
    with Cons show ?thesis by simp
  next
    case (Some emoji)
    then have "emoji \<in> set emojiAlternatives" by (simp add: matchAlternatives_Some)
    with emojiAlternatives_nonempty have "emoji \<noteq> []" by blast
    then have "emojiCallback emoji \<noteq> []" by (rule emojiCallback_nonempty)
    with Cons Some show ?thesis by simp
  qed
qed

lemma convertOpalMarkdownToJira_Nil_iff: "convertOpalMarkdownToJira s = [] \<longleftrightarrow> s = []"
  by (simp add: convertOpalMarkdownToJira_def replaceDoubleNewline_id replaceEmoji_Nil_iff
      replaceActionItems_Nil_iff)

lemma star_all:
  "\<forall>c \<in> set cs. P c \<Longrightarrow> \<exists>q rest. star P (prev, cs) = (q, []) # rest"
proof (induction cs arbitrary: prev)
  case Nil
  then show ?case by simp
next
  case (Cons c cs)
  then obtain q rest where "star P (Some c, cs) = (q, []) # rest" by fastforce
  with Cons.prems show ?case by simp
qed

lemma actionItemTail_line:
  assumes "text \<noteq> []" and "\<forall>c \<in> set text. \<not> isLineTerminator c"
  shows "\<exists>q rest. actionItemTail (prev, text) = (q, []) # rest"
proof -
  from assms(1) obtain t ts where t: "text = t # ts" by (cases "text") auto
  with assms(2) have "\<forall>c \<in> set ts. isDot c" and d: "isDot t" by (simp_all add: isDot_def)
  then obtain q rest where "star isDot (Some t, ts) = (q, []) # rest"
    using star_all by blast
  with t d show ?thesis
    by (simp add: actionItemTail_def plus_def seq_def)
qed

lemma actionItemHead_item:
  assumes "bullet = of_char CHR ''-'' \<or> bullet = of_char CHR ''*''"
    and "mark = of_char CHR '' '' \<or> mark = of_char CHR ''x''"
    and "text \<noteq> []" and "\<not> isWhiteSpace (hd text)"
  shows "actionItemHead (None, bullet # lit '' ['' @ mark # lit ''] '' @ text) =
           [(Some (of_char CHR '' ''), text), (Some (of_char CHR '']''), of_char CHR '' '' # text)]"
proof -
  from assms(3) obtain t ts where t: "text = t # ts" by (cases "text") auto
  with assms(4) have w: "\<not> isWhiteSpace t" by simp
  from assms(1,2) w show ?thesis
    unfolding t
    by (auto simp: actionItemHead_def seq_def lit_def isWhiteSpace_def isLineTerminator_def)
qed

text \<open>
  A description that is one checkbox item (a bullet \<^verbatim>\<open>-\<close> or \<^verbatim>\<open>*\<close>, a mark that is a blank
  or \<^verbatim>\<open>x\<close>, then text on the same line that starts with a visible character) becomes
  \<^verbatim>\<open>[] text\<close>, whatever the mark.
\<close>

lemma replaceActionItems_single_item:
  assumes "bullet = of_char CHR ''-'' \<or> bullet = of_char CHR ''*''"
    and "mark = of_char CHR '' '' \<or> mark = of_char CHR ''x''"
    and "text \<noteq> []" and "\<not> isWhiteSpace (hd text)"
    and "\<forall>c \<in> set text. \<not> isLineTerminator c"
  shows "replaceActionItems (None, bullet # lit '' ['' @ mark # lit ''] '' @ text) =
           lit ''[] '' @ text"
proof -
  obtain q rest where "actionItemTail (Some (of_char CHR '' ''), text) = (q, []) # rest"
    using actionItemTail_line [OF assms(3,5)] by blast
  then have "\<exists>more. actionItemMatch (None, bullet # lit '' ['' @ mark # lit ''] '' @ text) =
           (text, (q, [])) # more"
    by (simp add: actionItemMatch_def actionItemHead_item [OF assms(1-4)])
  then obtain more where
    m: "actionItemMatch (None, bullet # lit '' ['' @ mark # lit ''] '' @ text) =
           (text, (q, [])) # more"
    by blast
  have "bullet # lit '' ['' @ mark # lit ''] '' @ text
          = bullet # (lit '' ['' @ mark # lit ''] '' @ text)" by simp
  then show ?thesis
    using m by (simp del: append.simps)
qed

text \<open>
  C10: each line that is a checkbox item, checked or not, is to become \<^verbatim>\<open>[] text\<close>. The
  class \<^verbatim>\<open>\s\<close> also matches line breaks, so an item without text takes the whole next
  line as its text: on the two-line input \<^verbatim>\<open>- [ ]\<close>, \<^verbatim>\<open>- [x] b\<close> the result is the single
  line \<^verbatim>\<open>[] - [x] b\<close>; the second item is not rewritten and its check mark stays, so the
  checked and the unchecked variant of that input are converted to different texts.
\<close>

theorem C10_item_without_text_takes_the_next_line:
  "convertOpalMarkdownToJira (lit ''- [ ]'' @ [0x0A] @ lit ''- [x] b'') = lit ''[] - [x] b''
   \<and> convertOpalMarkdownToJira (lit ''- [ ]'' @ [0x0A] @ lit ''- [ ] b'') = lit ''[] - [ ] b''
   \<and> lit ''[] - [x] b'' \<noteq> lit ''[] - [ ] b''"
  by code_simp

text \<open>
  C8: the replacement of double newlines by double newlines changes nothing: on every
  input, the conversion without that step returns what the conversion as written returns.
\<close>

theorem C8_newline_step_is_noop:
  "convertOpalMarkdownToJira_without_newline_step s = convertOpalMarkdownToJira s"
  by (simp add: convertOpalMarkdownToJira_def convertOpalMarkdownToJira_without_newline_step_def
      replaceDoubleNewline_id)

section \<open>Properties of the tool\<close>


lemma validate_None_iff:
  "validate params = None \<longleftrightarrow>
     (\<exists>s. summary params = Some s \<and> trim s \<noteq> [] \<and> length s \<le> 255) \<and>
     (\<forall>d. description params = Some d \<longrightarrow> length d \<le> 32767)"
  by (cases "summary params"; cases "description params") (auto simp: validate_def trim_def)

lemma snd_getUserByEmail: "snd (getUserByEmail jira email) = [GetUserSearch email]"
  by (simp add: getUserByEmail_def)

lemma snd_createIssue: "snd (createIssue jira issueData) = [PostIssue issueData]"
  by (simp add: createIssue_def)

lemma addDescription_assignee:
  "fields_assignee_accountId (addDescription d r) = fields_assignee_accountId r"
  by (cases "(d, r)" rule: addDescription.cases) simp_all

lemma issueRequest_fields:
  "fields_project_key (issueRequest pk it s d a) = pk"
  "fields_issuetype_name (issueRequest pk it s d a) = it"
  "fields_summary (issueRequest pk it s d a) = s"
  "fields_assignee_accountId (issueRequest pk it s d a) = a"
  by (cases d; simp add: issueRequest_def)+

lemma createIssueWithText_found:
  assumes "email \<noteq> []" and "fst (getUserByEmail jira email) = Inr user"
  shows "createIssueWithText jira pk it s d (Some email) =
     (fst (createIssue jira (issueRequest pk it s d (Some (accountId user)))),
      [GetUserSearch email, PostIssue (issueRequest pk it s d (Some (accountId user)))])"
proof -
  from assms(2) have g: "getUserByEmail jira email = (Inr user, [GetUserSearch email])"
    using snd_getUserByEmail [of jira email] by (cases "getUserByEmail jira email") simp
  show ?thesis
    using assms(1)
    by (simp add: createIssueWithText_def g issueRequest_def Let_def case_prod_beta
        snd_createIssue)
qed

lemma createIssueWithText_not_found:
  assumes "email \<noteq> []" and "fst (getUserByEmail jira email) = Inl e"
  shows "createIssueWithText jira pk it s d (Some email) =
     (fst (createIssue jira (issueRequest pk it s d None)),
      [GetUserSearch email,
       ConsoleWarn (lit ''Warning: Could not find user '' @ email @
                      lit '', creating ticket without assignee''),
       PostIssue (issueRequest pk it s d None)])"
proof -
  from assms(2) have g: "getUserByEmail jira email = (Inl e, [GetUserSearch email])"
    using snd_getUserByEmail [of jira email] by (cases "getUserByEmail jira email") simp
  have r: "issueRequest pk it s d None = addDescription d \<lparr>fields_project_key = pk, fields_summary = s,
        fields_description = None, fields_issuetype_name = it,
        fields_assignee_accountId = None\<rparr>"
    by (cases d) (simp_all add: issueRequest_def)
  show ?thesis
    using assms(1)
    by (simp add: createIssueWithText_def g r Let_def case_prod_beta snd_createIssue)
qed

lemma createIssueWithText_shape:
  assumes "email \<noteq> []"
  shows "fst (createIssueWithText jira pk it s d (Some email)) =
           fst (createIssue jira (issueRequest pk it s d (resolvedAccount jira email)))"
    and "payloads (snd (createIssueWithText jira pk it s d (Some email))) =
           [issueRequest pk it s d (resolvedAccount jira email)]"
    and "lookups (snd (createIssueWithText jira pk it s d (Some email))) = [email]"
proof -
  show "fst (createIssueWithText jira pk it s d (Some email)) =
           fst (createIssue jira (issueRequest pk it s d (resolvedAccount jira email)))"
    by (cases "fst (getUserByEmail jira email)")
       (simp_all add: createIssueWithText_found createIssueWithText_not_found assms
          resolvedAccount_def)
  show "payloads (snd (createIssueWithText jira pk it s d (Some email))) =
           [issueRequest pk it s d (resolvedAccount jira email)]"
    by (cases "fst (getUserByEmail jira email)")
       (simp_all add: createIssueWithText_found createIssueWithText_not_found assms
          resolvedAccount_def)
  show "lookups (snd (createIssueWithText jira pk it s d (Some email))) = [email]"
    by (cases "fst (getUserByEmail jira email)")
       (simp_all add: createIssueWithText_found createIssueWithText_not_found assms
          resolvedAccount_def)
qed

lemma emails_nonempty: "ALEX_WALD_EMAIL \<noteq> []" "PETSMART_ASSIGNEE_EMAIL \<noteq> []"
  by (simp_all add: ALEX_WALD_EMAIL_def PETSMART_ASSIGNEE_EMAIL_def lit_def)

lemma snd_createJiraTicket_DEX:
  "validate params = None \<Longrightarrow>
   snd (createJiraTicket_DEX env jira params) =
     snd (createIssueWithText jira DEX_PROJECT_KEY DEFAULT_ISSUE_TYPE_DEX
            (trim (the (summary params))) (map_option trim (description params))
            (Some ALEX_WALD_EMAIL))"
  by (simp add: createJiraTicket_DEX_def Let_def split: prod.splits sum.splits)

lemma snd_createJiraTicket_Petsmart:
  "validate params = None \<Longrightarrow>
   snd (createJiraTicket_Petsmart env jira params) =
     snd (createIssueWithText jira PETSMART_PROJECT_KEY DEFAULT_ISSUE_TYPE_Petsmart
            (trim (the (summary params))) (convertedDescription (description params))
            (Some PETSMART_ASSIGNEE_EMAIL))"
  by (simp add: createJiraTicket_Petsmart_def Let_def split: prod.splits sum.splits)

lemma trim_blank: "trim (lit ''   '') = []"
  by (simp add: trim_def lit_def isWhiteSpace_def isLineTerminator_def)

lemma trim_summary: "trim (lit ''Fix login'') = lit ''Fix login''"
  by (simp add: trim_def lit_def isWhiteSpace_def isLineTerminator_def)

lemma example_request_valid: "validate example_request = None"
  by (simp add: validate_None_iff example_request_def trim_summary) (simp add: lit_def)

lemma example_lookup: "getUserByEmail example_jira email = (Inr example_user, [GetUserSearch email])"
  by (simp add: getUserByEmail_def example_jira_def example_user_def)

text \<open>
  C1: the three validation rules are applied in order and the first failure wins: a summary
  that is missing or trims to the empty string is refused as required; otherwise a summary
  of more than 255 code units (untrimmed) is refused as too long; otherwise a description
  of more than 32767 code units is refused as too long. In each case the \<^verbatim>\<open>Error\<close> is
  thrown before any outbound call: the run has no events.
\<close>

theorem C1_validation_first_failure_wins:
  "(summary params = None \<or> (summary params = Some s \<and> trim s = []) \<longrightarrow>
      createJiraTicket_DEX env jira params =
        (Inl (Error (lit ''Summary is required and cannot be empty'')), []) \<and>
      createJiraTicket_Petsmart env jira params =
        (Inl (Error (lit ''Summary is required and cannot be empty'')), []))
   \<and> (summary params = Some s \<and> trim s \<noteq> [] \<and> 255 < length s \<longrightarrow>
      createJiraTicket_DEX env jira params =
        (Inl (Error (lit ''Summary must be 255 characters or less'')), []) \<and>
      createJiraTicket_Petsmart env jira params =
        (Inl (Error (lit ''Summary must be 255 characters or less'')), []))
   \<and> (summary params = Some s \<and> trim s \<noteq> [] \<and> length s \<le> 255 \<and>
      description params = Some d \<and> 32767 < length d \<longrightarrow>
      createJiraTicket_DEX env jira params =
        (Inl (Error (lit ''Description must be 32,767 characters or less'')), []) \<and>
      createJiraTicket_Petsmart env jira params =
        (Inl (Error (lit ''Description must be 32,767 characters or less'')), []))"
proof (intro conjI impI)
  assume "summary params = None \<or> (summary params = Some s \<and> trim s = [])"
  then have v: "validate params = Some (lit ''Summary is required and cannot be empty'')"
    by (auto simp: validate_def)
  show "createJiraTicket_DEX env jira params =
        (Inl (Error (lit ''Summary is required and cannot be empty'')), [])"
    by (simp add: createJiraTicket_DEX_def v)
  show "createJiraTicket_Petsmart env jira params =
        (Inl (Error (lit ''Summary is required and cannot be empty'')), [])"
    by (simp add: createJiraTicket_Petsmart_def v)
next
  assume "summary params = Some s \<and> trim s \<noteq> [] \<and> 255 < length s"
  then have v: "validate params = Some (lit ''Summary must be 255 characters or less'')"
    by (auto simp: validate_def trim_def)
  show "createJiraTicket_DEX env jira params =
        (Inl (Error (lit ''Summary must be 255 characters or less'')), [])"
    by (simp add: createJiraTicket_DEX_def v)
  show "createJiraTicket_Petsmart env jira params =
        (Inl (Error (lit ''Summary must be 255 characters or less'')), [])"
    by (simp add: createJiraTicket_Petsmart_def v)
next
  assume "summary params = Some s \<and> trim s \<noteq> [] \<and> length s \<le> 255 \<and>
      description params = Some d \<and> 32767 < length d"
  then have v: "validate params = Some (lit ''Description must be 32,767 characters or less'')"
    by (auto simp: validate_def trim_def)
  show "createJiraTicket_DEX env jira params =
        (Inl (Error (lit ''Description must be 32,767 characters or less'')), [])"
    by (simp add: createJiraTicket_DEX_def v)
  show "createJiraTicket_Petsmart env jira params =
        (Inl (Error (lit ''Description must be 32,767 characters or less'')), [])"
    by (simp add: createJiraTicket_Petsmart_def v)
qed

theorem C1_witness:
  "createJiraTicket_DEX example_env example_jira
      \<lparr>summary = Some (lit ''   ''), description = Some (lit ''Steps to reproduce'')\<rparr> =
     (Inl (Error (lit ''Summary is required and cannot be empty'')), [])
   \<and> createJiraTicket_Petsmart example_env example_jira
      \<lparr>summary = Some (lit ''   ''), description = Some (lit ''Steps to reproduce'')\<rparr> =
     (Inl (Error (lit ''Summary is required and cannot be empty'')), [])
   \<and> createJiraTicket_DEX example_env example_jira
      \<lparr>summary = Some (replicate 256 (of_char CHR ''a'')), description = None\<rparr> =
     (Inl (Error (lit ''Summary must be 255 characters or less'')), [])
   \<and> createJiraTicket_Petsmart example_env example_jira
      \<lparr>summary = Some (replicate 256 (of_char CHR ''a'')), description = None\<rparr> =
     (Inl (Error (lit ''Summary must be 255 characters or less'')), [])
   \<and> createJiraTicket_DEX example_env example_jira
      \<lparr>summary = Some (lit ''Fix login''),
       description = Some (replicate 32768 (of_char CHR ''a''))\<rparr> =
     (Inl (Error (lit ''Description must be 32,767 characters or less'')), [])
   \<and> createJiraTicket_Petsmart example_env example_jira
      \<lparr>summary = Some (lit ''Fix login''),
       description = Some (replicate 32768 (of_char CHR ''a''))\<rparr> =
     (Inl (Error (lit ''Description must be 32,767 characters or less'')), [])"
proof -
  have long: "trim (replicate 256 (of_char CHR ''a'' :: jschar)) \<noteq> []"
    by (simp add: trim_def isWhiteSpace_def isLineTerminator_def dropWhile_eq_Nil_conv)
  note a = C1_validation_first_failure_wins
    [where params = "\<lparr>summary = Some (lit ''   ''),
                      description = Some (lit ''Steps to reproduce'')\<rparr>"
       and s = "lit ''   ''" and d = "[]" and env = example_env and jira = example_jira]
  note b = C1_validation_first_failure_wins
    [where params = "\<lparr>summary = Some (replicate 256 (of_char CHR ''a'')), description = None\<rparr>"
       and s = "replicate 256 (of_char CHR ''a'')" and d = "[]"
       and env = example_env and jira = example_jira]
  note c = C1_validation_first_failure_wins
    [where params = "\<lparr>summary = Some (lit ''Fix login''),
                      description = Some (replicate 32768 (of_char CHR ''a''))\<rparr>"
       and s = "lit ''Fix login''" and d = "replicate 32768 (of_char CHR ''a'')"
       and env = example_env and jira = example_jira]
  from a have 1: "createJiraTicket_DEX example_env example_jira
      \<lparr>summary = Some (lit ''   ''), description = Some (lit ''Steps to reproduce'')\<rparr> =
     (Inl (Error (lit ''Summary is required and cannot be empty'')), [])
   \<and> createJiraTicket_Petsmart example_env example_jira
      \<lparr>summary = Some (lit ''   ''), description = Some (lit ''Steps to reproduce'')\<rparr> =
     (Inl (Error (lit ''Summary is required and cannot be empty'')), [])"
    using trim_blank by simp
  from b have 2: "createJiraTicket_DEX example_env example_jira
      \<lparr>summary = Some (replicate 256 (of_char CHR ''a'')), description = None\<rparr> =
     (Inl (Error (lit ''Summary must be 255 characters or less'')), [])
   \<and> createJiraTicket_Petsmart example_env example_jira
      \<lparr>summary = Some (replicate 256 (of_char CHR ''a'')), description = None\<rparr> =
     (Inl (Error (lit ''Summary must be 255 characters or less'')), [])"
    using long by simp
  from c have 3: "createJiraTicket_DEX example_env example_jira
      \<lparr>summary = Some (lit ''Fix login''),
       description = Some (replicate 32768 (of_char CHR ''a''))\<rparr> =
     (Inl (Error (lit ''Description must be 32,767 characters or less'')), [])
   \<and> createJiraTicket_Petsmart example_env example_jira
      \<lparr>summary = Some (lit ''Fix login''),
       description = Some (replicate 32768 (of_char CHR ''a''))\<rparr> =
     (Inl (Error (lit ''Description must be 32,767 characters or less'')), [])"
    using trim_summary by (simp add: lit_def)
  from 1 2 3 show ?thesis by blast
qed


text \<open>
  C2: for every request that passes validation, whatever the server answers, one issue is
  posted; its project key and issue type are the constants of the deployment, the one
  lookup is for the constant assignee email, and the assignee of the issue is the account
  that lookup returned. Nothing of the request enters these.
\<close>

theorem C2_fixed_configuration:
  assumes "validate params = None"
  shows "lookups (snd (createJiraTicket_DEX env jira params)) = [ALEX_WALD_EMAIL]
       \<and> map fields_project_key (payloads (snd (createJiraTicket_DEX env jira params)))
           = [DEX_PROJECT_KEY]
       \<and> map fields_issuetype_name (payloads (snd (createJiraTicket_DEX env jira params)))
           = [DEFAULT_ISSUE_TYPE_DEX]
       \<and> map fields_assignee_accountId (payloads (snd (createJiraTicket_DEX env jira params)))
           = [resolvedAccount jira ALEX_WALD_EMAIL]
       \<and> lookups (snd (createJiraTicket_Petsmart env jira params)) = [PETSMART_ASSIGNEE_EMAIL]
       \<and> map fields_project_key (payloads (snd (createJiraTicket_Petsmart env jira params)))
           = [PETSMART_PROJECT_KEY]
       \<and> map fields_issuetype_name (payloads (snd (createJiraTicket_Petsmart env jira params)))
           = [DEFAULT_ISSUE_TYPE_Petsmart]
       \<and> map fields_assignee_accountId
             (payloads (snd (createJiraTicket_Petsmart env jira params)))
           = [resolvedAccount jira PETSMART_ASSIGNEE_EMAIL]"
  by (simp add: snd_createJiraTicket_DEX snd_createJiraTicket_Petsmart assms
      createIssueWithText_shape emails_nonempty issueRequest_fields)

theorem C2_witness:
  "validate example_request = None
   \<and> lookups (snd (createJiraTicket_DEX example_env example_jira example_request))
       = [lit ''alex.wald@optimizely.com'']
   \<and> map fields_project_key
        (payloads (snd (createJiraTicket_DEX example_env example_jira example_request)))
       = [lit ''DHK'']
   \<and> map fields_issuetype_name
        (payloads (snd (createJiraTicket_DEX example_env example_jira example_request)))
       = [lit ''Story'']
   \<and> map fields_assignee_accountId
        (payloads (snd (createJiraTicket_DEX example_env example_jira example_request)))
       = [Some (accountId example_user)]
   \<and> lookups (snd (createJiraTicket_Petsmart example_env example_jira example_request))
       = [lit ''oruhland@petsmart.com'']
   \<and> map fields_project_key
        (payloads (snd (createJiraTicket_Petsmart example_env example_jira example_request)))
       = [lit ''DTO'']
   \<and> map fields_issuetype_name
        (payloads (snd (createJiraTicket_Petsmart example_env example_jira example_request)))
       = [lit ''Epic'']
   \<and> map fields_assignee_accountId
        (payloads (snd (createJiraTicket_Petsmart example_env example_jira example_request)))
       = [Some (accountId example_user)]"
  using C2_fixed_configuration [OF example_request_valid, of example_env example_jira]
    example_request_valid
  by (simp add: resolvedAccount_def example_lookup ALEX_WALD_EMAIL_def DEX_PROJECT_KEY_def
      DEFAULT_ISSUE_TYPE_DEX_def PETSMART_ASSIGNEE_EMAIL_def PETSMART_PROJECT_KEY_def
      DEFAULT_ISSUE_TYPE_Petsmart_def)

lemma fst_createJiraTicket_DEX:
  "validate params = None \<Longrightarrow>
   fst (createJiraTicket_DEX env jira params) =
     (case fst (createIssueWithText jira DEX_PROJECT_KEY DEFAULT_ISSUE_TYPE_DEX
            (trim (the (summary params))) (map_option trim (description params))
            (Some ALEX_WALD_EMAIL)) of
        Inl error \<Rightarrow> Inl (Error (classifyError_DEX error))
      | Inr result \<Rightarrow>
          Inr \<lparr>success = True,
               message = lit ''Successfully created JIRA ticket '' @ resp_key result
                 @ lit '' in DEX project. The ticket has been assigned to Alex Wald and can be viewed at ''
                 @ baseUrl env @ lit ''/browse/'' @ resp_key result,
               ticketKey = resp_key result,
               ticketUrl = baseUrl env @ lit ''/browse/'' @ resp_key result,
               ticketId = resp_id result\<rparr>)"
  by (simp add: createJiraTicket_DEX_def Let_def split: prod.splits sum.splits)

lemma fst_createJiraTicket_Petsmart:
  "validate params = None \<Longrightarrow>
   fst (createJiraTicket_Petsmart env jira params) =
     (case fst (createIssueWithText jira PETSMART_PROJECT_KEY DEFAULT_ISSUE_TYPE_Petsmart
            (trim (the (summary params))) (convertedDescription (description params))
            (Some PETSMART_ASSIGNEE_EMAIL)) of
        Inl error \<Rightarrow> Inl (Error (classifyError_Petsmart error))
      | Inr result \<Rightarrow>
          Inr \<lparr>success = True,
               message = lit ''Successfully created JIRA ticket '' @ resp_key result
                 @ lit '' in Petsmart DTO project. Attempted to assign to oruhland@petsmart.com. Check the ticket to verify assignment. View at ''
                 @ baseUrl env @ lit ''/browse/'' @ resp_key result,
               ticketKey = resp_key result,
               ticketUrl = baseUrl env @ lit ''/browse/'' @ resp_key result,
               ticketId = resp_id result\<rparr>)"
  by (simp add: createJiraTicket_Petsmart_def Let_def split: prod.splits sum.splits)

lemma fst_createIssue_Resolved:
  "postIssue jira issueData = Resolved r \<Longrightarrow> fst (createIssue jira issueData) = Inr r"
  by (simp add: createIssue_def)

lemma resolvedAccount_failed:
  "fst (getUserByEmail jira email) = Inl e \<Longrightarrow> resolvedAccount jira email = None"
  by (simp add: resolvedAccount_def)

lemma getUserByEmail_no_match:
  "userSearch jira email = Resolved [] \<Longrightarrow>
   fst (getUserByEmail jira email) =
     Inl (JiraClientError (lit ''User with email '' @ email @ lit '' not found'') 404)"
  by (simp add: getUserByEmail_def)

lemma payloads_DEX:
  "validate params = None \<Longrightarrow>
   payloads (snd (createJiraTicket_DEX env jira params)) = [posted_DEX jira params]"
  by (simp add: snd_createJiraTicket_DEX createIssueWithText_shape emails_nonempty
      posted_DEX_def)

lemma payloads_Petsmart:
  "validate params = None \<Longrightarrow>
   payloads (snd (createJiraTicket_Petsmart env jira params)) = [posted_Petsmart jira params]"
  by (simp add: snd_createJiraTicket_Petsmart createIssueWithText_shape emails_nonempty
      posted_Petsmart_def)

text \<open>The result of a run is decided by the answer to the one issue it posts.\<close>

lemma result_DEX:
  assumes "validate params = None"
    and "payloads (snd (createJiraTicket_DEX env jira params)) = [issueData]"
  shows "fst (createJiraTicket_DEX env jira params) =
     (case fst (createIssue jira issueData) of
        Inl error \<Rightarrow> Inl (Error (classifyError_DEX error))
      | Inr result \<Rightarrow>
          Inr \<lparr>success = True,
               message = lit ''Successfully created JIRA ticket '' @ resp_key result
                 @ lit '' in DEX project. The ticket has been assigned to Alex Wald and can be viewed at ''
                 @ baseUrl env @ lit ''/browse/'' @ resp_key result,
               ticketKey = resp_key result,
               ticketUrl = baseUrl env @ lit ''/browse/'' @ resp_key result,
               ticketId = resp_id result\<rparr>)"
proof -
  from assms have "issueData = posted_DEX jira params"
    by (simp add: payloads_DEX)
  then show ?thesis
    by (simp only: fst_createJiraTicket_DEX [OF assms(1)]
        createIssueWithText_shape(1) [OF emails_nonempty(1)] posted_DEX_def)
qed

lemma result_Petsmart:
  assumes "validate params = None"
    and "payloads (snd (createJiraTicket_Petsmart env jira params)) = [issueData]"
  shows "fst (createJiraTicket_Petsmart env jira params) =
     (case fst (createIssue jira issueData) of
        Inl error \<Rightarrow> Inl (Error (classifyError_Petsmart error))
      | Inr result \<Rightarrow>
          Inr \<lparr>success = True,
               message = lit ''Successfully created JIRA ticket '' @ resp_key result
                 @ lit '' in Petsmart DTO project. Attempted to assign to oruhland@petsmart.com. Check the ticket to verify assignment. View at ''
                 @ baseUrl env @ lit ''/browse/'' @ resp_key result,
               ticketKey = resp_key result,
               ticketUrl = baseUrl env @ lit ''/browse/'' @ resp_key result,
               ticketId = resp_id result\<rparr>)"
proof -
  from assms have "issueData = posted_Petsmart jira params"
    by (simp add: payloads_Petsmart)
  then show ?thesis
    by (simp only: fst_createJiraTicket_Petsmart [OF assms(1)]
        createIssueWithText_shape(1) [OF emails_nonempty(2)] posted_Petsmart_def)
qed

text \<open>
  C3: when the lookup of the assignee fails, for whatever reason, the issue is still
  posted, without an assignee, and if the server accepts that issue the tool returns a
  successful result: a failed lookup alone never makes \<^verbatim>\<open>createJiraTicket\<close> fail. A
  search that finds no account is such a failure, with status 404
  (\<open>getUserByEmail_no_match\<close>).
\<close>

theorem C3_assignee_failure_does_not_block:
  assumes "validate params = None"
  shows "(fst (getUserByEmail jira ALEX_WALD_EMAIL) = Inl e \<longrightarrow>
            map fields_assignee_accountId
              (payloads (snd (createJiraTicket_DEX env jira params))) = [None]
          \<and> (payloads (snd (createJiraTicket_DEX env jira params)) = [issueData_DEX]
              \<and> postIssue jira issueData_DEX = Resolved created \<longrightarrow>
              succeeded (fst (createJiraTicket_DEX env jira params))))
       \<and> (fst (getUserByEmail jira PETSMART_ASSIGNEE_EMAIL) = Inl e \<longrightarrow>
            map fields_assignee_accountId
              (payloads (snd (createJiraTicket_Petsmart env jira params))) = [None]
          \<and> (payloads (snd (createJiraTicket_Petsmart env jira params)) = [issueData_Petsmart]
              \<and> postIssue jira issueData_Petsmart = Resolved created \<longrightarrow>
              succeeded (fst (createJiraTicket_Petsmart env jira params))))"
proof (intro conjI impI)
  assume f: "fst (getUserByEmail jira ALEX_WALD_EMAIL) = Inl e"
  show "map fields_assignee_accountId
          (payloads (snd (createJiraTicket_DEX env jira params))) = [None]"
    by (simp add: payloads_DEX assms posted_DEX_def issueRequest_fields
        resolvedAccount_failed [OF f])
next
  assume "payloads (snd (createJiraTicket_DEX env jira params)) = [issueData_DEX]
            \<and> postIssue jira issueData_DEX = Resolved created"
  then show "succeeded (fst (createJiraTicket_DEX env jira params))"
    by (simp add: result_DEX [OF assms] fst_createIssue_Resolved succeeded_def)
next
  assume f: "fst (getUserByEmail jira PETSMART_ASSIGNEE_EMAIL) = Inl e"
  show "map fields_assignee_accountId
          (payloads (snd (createJiraTicket_Petsmart env jira params))) = [None]"
    by (simp add: payloads_Petsmart assms posted_Petsmart_def issueRequest_fields
        resolvedAccount_failed [OF f])
next
  assume "payloads (snd (createJiraTicket_Petsmart env jira params)) = [issueData_Petsmart]
            \<and> postIssue jira issueData_Petsmart = Resolved created"
  then show "succeeded (fst (createJiraTicket_Petsmart env jira params))"
    by (simp add: result_Petsmart [OF assms] fst_createIssue_Resolved succeeded_def)
qed

lemma example_no_user_post:
  "postIssue example_jira_no_user issueData = Resolved example_created"
  by (simp add: example_jira_no_user_def)

theorem C3_witness:
  "fst (getUserByEmail example_jira_no_user ALEX_WALD_EMAIL) =
     Inl (JiraClientError
            (lit ''User with email '' @ ALEX_WALD_EMAIL @ lit '' not found'') 404)
   \<and> map fields_assignee_accountId
        (payloads (snd (createJiraTicket_DEX example_env example_jira_no_user example_request)))
       = [None]
   \<and> succeeded (fst (createJiraTicket_DEX example_env example_jira_no_user example_request))
   \<and> fst (getUserByEmail example_jira_no_user PETSMART_ASSIGNEE_EMAIL) =
     Inl (JiraClientError
            (lit ''User with email '' @ PETSMART_ASSIGNEE_EMAIL @ lit '' not found'') 404)
   \<and> map fields_assignee_accountId
        (payloads (snd (createJiraTicket_Petsmart example_env example_jira_no_user
           example_request))) = [None]
   \<and> succeeded (fst (createJiraTicket_Petsmart example_env example_jira_no_user
        example_request))"
proof -
  have a: "fst (getUserByEmail example_jira_no_user ALEX_WALD_EMAIL) =
     Inl (JiraClientError
            (lit ''User with email '' @ ALEX_WALD_EMAIL @ lit '' not found'') 404)"
    by (rule getUserByEmail_no_match) (simp add: example_jira_no_user_def)
  have b: "fst (getUserByEmail example_jira_no_user PETSMART_ASSIGNEE_EMAIL) =
     Inl (JiraClientError
            (lit ''User with email '' @ PETSMART_ASSIGNEE_EMAIL @ lit '' not found'') 404)"
    by (rule getUserByEmail_no_match) (simp add: example_jira_no_user_def)
  note p = payloads_DEX [OF example_request_valid, of example_env example_jira_no_user]
    payloads_Petsmart [OF example_request_valid, of example_env example_jira_no_user]
  from C3_assignee_failure_does_not_block
    [OF example_request_valid,
     where jira = example_jira_no_user and env = example_env
       and created = example_created
       and issueData_DEX = "posted_DEX example_jira_no_user example_request"
       and issueData_Petsmart = "posted_Petsmart example_jira_no_user example_request"
       and e = "JiraClientError
            (lit ''User with email '' @ ALEX_WALD_EMAIL @ lit '' not found'') 404"]
    C3_assignee_failure_does_not_block
    [OF example_request_valid,
     where jira = example_jira_no_user and env = example_env
       and created = example_created
       and issueData_DEX = "posted_DEX example_jira_no_user example_request"
       and issueData_Petsmart = "posted_Petsmart example_jira_no_user example_request"
       and e = "JiraClientError
            (lit ''User with email '' @ PETSMART_ASSIGNEE_EMAIL @ lit '' not found'') 404"]
    a b p example_no_user_post
  show ?thesis by simp
qed





text \<open>
  C7: in \<^verbatim>\<open>validateJiraConnection\<close>, a failed lookup of the assignee gives
  \<^verbatim>\<open>assigneeFound\<close> false and a warning appended to the message, with \<^verbatim>\<open>success\<close> and
  \<^verbatim>\<open>projectAccessible\<close> still true; and in every run the only outbound call is that
  lookup: no issue is posted.
\<close>

theorem C7_lookup_failure_is_a_warning:
  "(fst (getUserByEmail jira ALEX_WALD_EMAIL) = Inl e \<longrightarrow>
      fst (validateJiraConnection_DEX jira) =
        \<lparr>success = True,
         message = lit ''JIRA connection validated successfully''
           @ lit '' (Warning: Could not find user '' @ ALEX_WALD_EMAIL @ lit '')'',
         projectAccessible = True, assigneeFound = False\<rparr>)
   \<and> snd (validateJiraConnection_DEX jira) = [GetUserSearch ALEX_WALD_EMAIL]
   \<and> (fst (getUserByEmail jira PETSMART_ASSIGNEE_EMAIL) = Inl e \<longrightarrow>
      fst (validateJiraConnection_Petsmart jira) =
        \<lparr>success = True,
         message = lit ''JIRA connection validated successfully''
           @ lit '' (Warning: Could not find user '' @ PETSMART_ASSIGNEE_EMAIL @ lit '')'',
         projectAccessible = True, assigneeFound = False\<rparr>)
   \<and> snd (validateJiraConnection_Petsmart jira) = [GetUserSearch PETSMART_ASSIGNEE_EMAIL]"
proof -
  have g: "getUserByEmail jira email = (fst (getUserByEmail jira email), [GetUserSearch email])"
    for email
    using snd_getUserByEmail [of jira email] by (cases "getUserByEmail jira email") simp
  show ?thesis
  proof (intro conjI impI)
    assume "fst (getUserByEmail jira ALEX_WALD_EMAIL) = Inl e"
    with g [of ALEX_WALD_EMAIL]
    have "getUserByEmail jira ALEX_WALD_EMAIL = (Inl e, [GetUserSearch ALEX_WALD_EMAIL])"
      by simp
    then show "fst (validateJiraConnection_DEX jira) =
        \<lparr>success = True,
         message = lit ''JIRA connection validated successfully''
           @ lit '' (Warning: Could not find user '' @ ALEX_WALD_EMAIL @ lit '')'',
         projectAccessible = True, assigneeFound = False\<rparr>"
      by (simp add: validateJiraConnection_DEX_def)
  next
    assume "fst (getUserByEmail jira PETSMART_ASSIGNEE_EMAIL) = Inl e"
    with g [of PETSMART_ASSIGNEE_EMAIL]
    have "getUserByEmail jira PETSMART_ASSIGNEE_EMAIL =
            (Inl e, [GetUserSearch PETSMART_ASSIGNEE_EMAIL])"
      by simp
    then show "fst (validateJiraConnection_Petsmart jira) =
        \<lparr>success = True,
         message = lit ''JIRA connection validated successfully''
           @ lit '' (Warning: Could not find user '' @ PETSMART_ASSIGNEE_EMAIL @ lit '')'',
         projectAccessible = True, assigneeFound = False\<rparr>"
      by (simp add: validateJiraConnection_Petsmart_def)
  next
    show "snd (validateJiraConnection_DEX jira) = [GetUserSearch ALEX_WALD_EMAIL]"
      using g [of ALEX_WALD_EMAIL]
      by (cases "fst (getUserByEmail jira ALEX_WALD_EMAIL)")
         (simp_all add: validateJiraConnection_DEX_def split: prod.splits)
  next
    show "snd (validateJiraConnection_Petsmart jira) = [GetUserSearch PETSMART_ASSIGNEE_EMAIL]"
      using g [of PETSMART_ASSIGNEE_EMAIL]
      by (cases "fst (getUserByEmail jira PETSMART_ASSIGNEE_EMAIL)")
         (simp_all add: validateJiraConnection_Petsmart_def split: prod.splits)
  qed
qed

theorem C7_witness:
  "fst (validateJiraConnection_DEX example_jira_no_user) =
        \<lparr>success = True,
         message = lit ''JIRA connection validated successfully (Warning: Could not find user alex.wald@optimizely.com)'',
         projectAccessible = True, assigneeFound = False\<rparr>
   \<and> snd (validateJiraConnection_DEX example_jira_no_user) =
        [GetUserSearch (lit ''alex.wald@optimizely.com'')]
   \<and> fst (validateJiraConnection_Petsmart example_jira_no_user) =
        \<lparr>success = True,
         message = lit ''JIRA connection validated successfully (Warning: Could not find user oruhland@petsmart.com)'',
         projectAccessible = True, assigneeFound = False\<rparr>
   \<and> snd (validateJiraConnection_Petsmart example_jira_no_user) =
        [GetUserSearch (lit ''oruhland@petsmart.com'')]"
proof -
  have a: "fst (getUserByEmail example_jira_no_user ALEX_WALD_EMAIL) =
     Inl (JiraClientError
            (lit ''User with email '' @ ALEX_WALD_EMAIL @ lit '' not found'') 404)"
    by (rule getUserByEmail_no_match) (simp add: example_jira_no_user_def)
  have b: "fst (getUserByEmail example_jira_no_user PETSMART_ASSIGNEE_EMAIL) =
     Inl (JiraClientError
            (lit ''User with email '' @ PETSMART_ASSIGNEE_EMAIL @ lit '' not found'') 404)"
    by (rule getUserByEmail_no_match) (simp add: example_jira_no_user_def)
  from C7_lookup_failure_is_a_warning [of example_jira_no_user
      "JiraClientError (lit ''User with email '' @ ALEX_WALD_EMAIL @ lit '' not found'') 404"]
    C7_lookup_failure_is_a_warning [of example_jira_no_user
      "JiraClientError (lit ''User with email '' @ PETSMART_ASSIGNEE_EMAIL @ lit '' not found'')
         404"]
    a b
  show ?thesis
    by (simp add: ALEX_WALD_EMAIL_def PETSMART_ASSIGNEE_EMAIL_def lit_def)
qed

lemma issueRequest_description:
  "fields_description (issueRequest pk it s None a) = None"
  "fields_description (issueRequest pk it s (Some []) a) = None"
  "d \<noteq> [] \<Longrightarrow>
     fields_description (issueRequest pk it s (Some d) a) = Some (createDescriptionADF d)"
  by (simp_all add: issueRequest_def)

text \<open>
  C9: for a request that passes validation, the issue posted has no description at all
  when the request's description is absent, empty or blank (it trims to the empty string,
  and the conversion of the empty string is empty); when the description is not blank, the
  issue's description is one document with one paragraph holding one text run: the trimmed
  description in the DEX deployment, its conversion (never empty) in the Petsmart one.
\<close>

theorem C9_description_field:
  assumes "validate params = None"
  shows "(description params = None \<or> (description params = Some d \<and> trim d = []) \<longrightarrow>
            map fields_description (payloads (snd (createJiraTicket_DEX env jira params)))
              = [None]
          \<and> map fields_description (payloads (snd (createJiraTicket_Petsmart env jira params)))
              = [None])
       \<and> (description params = Some d \<and> trim d \<noteq> [] \<longrightarrow>
            map fields_description (payloads (snd (createJiraTicket_DEX env jira params)))
              = [Some \<lparr>doc_type = lit ''doc'', doc_version = 1,
                       doc_content =
                         [\<lparr>node_type = lit ''paragraph'',
                           node_content =
                             [\<lparr>run_text = trim d, run_type = lit ''text''\<rparr>]\<rparr>]\<rparr>]
          \<and> map fields_description (payloads (snd (createJiraTicket_Petsmart env jira params)))
              = [Some \<lparr>doc_type = lit ''doc'', doc_version = 1,
                       doc_content =
                         [\<lparr>node_type = lit ''paragraph'',
                           node_content =
                             [\<lparr>run_text = convertOpalMarkdownToJira (trim d),
                               run_type = lit ''text''\<rparr>]\<rparr>]\<rparr>]
          \<and> convertOpalMarkdownToJira (trim d) \<noteq> [])"
proof (intro conjI impI)
  assume a: "description params = None \<or> (description params = Some d \<and> trim d = [])"
  then have dex: "map_option trim (description params) = None
                  \<or> map_option trim (description params) = Some []"
    by auto
  from a have pet: "convertedDescription (description params) = None
                  \<or> convertedDescription (description params) = Some []"
    by (cases "d = []") (auto simp: convertOpalMarkdownToJira_Nil_iff)
  from dex show "map fields_description
      (payloads (snd (createJiraTicket_DEX env jira params))) = [None]"
    by (auto simp: snd_createJiraTicket_DEX assms createIssueWithText_shape emails_nonempty
        issueRequest_description)
  from pet show "map fields_description
      (payloads (snd (createJiraTicket_Petsmart env jira params))) = [None]"
    by (auto simp: snd_createJiraTicket_Petsmart assms createIssueWithText_shape
        emails_nonempty issueRequest_description)
next
  assume a: "description params = Some d \<and> trim d \<noteq> []"
  then have d: "d \<noteq> []" by (auto simp: trim_def)
  from a show c: "convertOpalMarkdownToJira (trim d) \<noteq> []"
    by (simp add: convertOpalMarkdownToJira_Nil_iff)
  from a show "map fields_description
      (payloads (snd (createJiraTicket_DEX env jira params)))
        = [Some \<lparr>doc_type = lit ''doc'', doc_version = 1,
                 doc_content =
                   [\<lparr>node_type = lit ''paragraph'',
                     node_content = [\<lparr>run_text = trim d, run_type = lit ''text''\<rparr>]\<rparr>]\<rparr>]"
    by (simp add: snd_createJiraTicket_DEX assms createIssueWithText_shape emails_nonempty
        issueRequest_description createDescriptionADF_def)
  from a d c show "map fields_description
      (payloads (snd (createJiraTicket_Petsmart env jira params)))
        = [Some \<lparr>doc_type = lit ''doc'', doc_version = 1,
                 doc_content =
                   [\<lparr>node_type = lit ''paragraph'',
                     node_content =
                       [\<lparr>run_text = convertOpalMarkdownToJira (trim d),
                         run_type = lit ''text''\<rparr>]\<rparr>]\<rparr>]"
    by (simp add: snd_createJiraTicket_Petsmart assms createIssueWithText_shape
        emails_nonempty issueRequest_description createDescriptionADF_def)
qed

lemma trim_description: "trim (lit ''Steps to reproduce'') = lit ''Steps to reproduce''"
  by (simp add: trim_def lit_def isWhiteSpace_def isLineTerminator_def)

lemma convert_description:
  "convertOpalMarkdownToJira (lit ''Steps to reproduce'') = lit ''Steps to reproduce''"
  by code_simp

lemma blank_request_valid:
  "validate \<lparr>summary = Some (lit ''Fix login''), description = Some (lit ''   '')\<rparr> = None"
  by (simp add: validate_None_iff trim_summary) (simp add: lit_def)

theorem C9_witness:
  "map fields_description (payloads (snd (createJiraTicket_DEX example_env example_jira
      \<lparr>summary = Some (lit ''Fix login''), description = Some (lit ''   '')\<rparr>))) = [None]
   \<and> map fields_description (payloads (snd (createJiraTicket_Petsmart example_env example_jira
      \<lparr>summary = Some (lit ''Fix login''), description = Some (lit ''   '')\<rparr>))) = [None]
   \<and> map fields_description
        (payloads (snd (createJiraTicket_DEX example_env example_jira example_request)))
       = [Some \<lparr>doc_type = lit ''doc'', doc_version = 1,
                doc_content =
                  [\<lparr>node_type = lit ''paragraph'',
                    node_content =
                      [\<lparr>run_text = lit ''Steps to reproduce'', run_type = lit ''text''\<rparr>]\<rparr>]\<rparr>]
   \<and> map fields_description
        (payloads (snd (createJiraTicket_Petsmart example_env example_jira example_request)))
       = [Some \<lparr>doc_type = lit ''doc'', doc_version = 1,
                doc_content =
                  [\<lparr>node_type = lit ''paragraph'',
                    node_content =
                      [\<lparr>run_text = lit ''Steps to reproduce'', run_type = lit ''text''\<rparr>]\<rparr>]\<rparr>]"
proof -
  have t: "trim (lit ''Steps to reproduce'') \<noteq> []"
    by (simp add: trim_description) (simp add: lit_def)
  from C9_description_field [OF blank_request_valid, of "lit ''   ''" example_env example_jira]
  have 1: "map fields_description (payloads (snd (createJiraTicket_DEX example_env example_jira
      \<lparr>summary = Some (lit ''Fix login''), description = Some (lit ''   '')\<rparr>))) = [None]
   \<and> map fields_description (payloads (snd (createJiraTicket_Petsmart example_env example_jira
      \<lparr>summary = Some (lit ''Fix login''), description = Some (lit ''   '')\<rparr>))) = [None]"
    by (simp add: trim_blank)
  from C9_description_field [OF example_request_valid, of "lit ''Steps to reproduce''"
      example_env example_jira] t
  have 2: "map fields_description
        (payloads (snd (createJiraTicket_DEX example_env example_jira example_request)))
       = [Some \<lparr>doc_type = lit ''doc'', doc_version = 1,
                doc_content =
                  [\<lparr>node_type = lit ''paragraph'',
                    node_content =
                      [\<lparr>run_text = lit ''Steps to reproduce'', run_type = lit ''text''\<rparr>]\<rparr>]\<rparr>]
   \<and> map fields_description
        (payloads (snd (createJiraTicket_Petsmart example_env example_jira example_request)))
       = [Some \<lparr>doc_type = lit ''doc'', doc_version = 1,
                doc_content =
                  [\<lparr>node_type = lit ''paragraph'',
                    node_content =
                      [\<lparr>run_text = lit ''Steps to reproduce'', run_type = lit ''text''\<rparr>]\<rparr>]\<rparr>]"
    by (simp add: example_request_def trim_description convert_description)
  from 1 2 show ?thesis by blast
qed






























end
